theory Spec2Isabelle
  imports Main
begin

section \<open>Strings\<close>

text \<open>
  A Python \<open>str\<close> is a sequence of Unicode code points, and is modelled as the list of
  them. \<open>py\<close> turns a literal of the source into it. Dictionaries received as JSON carry
  string values, as the data model of the specification has them; a key that is absent
  is \<open>None\<close>.
\<close>

type_synonym codepoint = nat

type_synonym pystr = "codepoint list"

definition py :: "string \<Rightarrow> pystr" where
  "py s = map of_char s"

definition digits :: string where
  "digits = ''0123456789''"

definition upper_letters :: string where
  "upper_letters = ''ABCDEFGHIJKLMNOPQRSTUVWXYZ''"

definition lower_letters :: string where
  "lower_letters = ''abcdefghijklmnopqrstuvwxyz''"

text \<open>
  \<open>str.lower\<close> on one code point below 256: the letters \<open>A\<close> to \<open>Z\<close> and the upper-case
  letters of the Latin-1 block (192 to 222 except the multiplication sign 215) move up by
  32; every other code point below 256 is its own lower case.
\<close>

definition lower_char :: "codepoint \<Rightarrow> codepoint" where
  "lower_char n =
     (if (65 \<le> n \<and> n \<le> 90) \<or> (192 \<le> n \<and> n \<le> 222 \<and> n \<noteq> 215)
      then n + 32 else n)"

text \<open>
  \<open>s.lower()\<close>. On a string that holds a code point from 256 on, Python follows the case
  mappings of the Unicode database (some of them depend on the neighbours of a letter,
  some give more than one code point); the source does not hold them, and they are the
  argument \<open>unicode_lower\<close>.
\<close>

definition lower :: "(pystr \<Rightarrow> pystr) \<Rightarrow> pystr \<Rightarrow> pystr" where
  "lower unicode_lower s =
     (if list_all (\<lambda>n. n < 256) s then map lower_char s else unicode_lower s)"

text \<open>\<open>s.startswith(p)\<close>, \<open>p in s\<close> and \<open>s.endswith(p)\<close>.\<close>

fun startswith :: "pystr \<Rightarrow> pystr \<Rightarrow> bool" where
  "startswith s [] = True"
| "startswith [] (p # ps) = False"
| "startswith (c # cs) (p # ps) = (c = p \<and> startswith cs ps)"

fun contains :: "pystr \<Rightarrow> pystr \<Rightarrow> bool" where
  "contains [] p = (p = [])"
| "contains (c # cs) p = (startswith (c # cs) p \<or> contains cs p)"

definition endswith :: "pystr \<Rightarrow> pystr \<Rightarrow> bool" where
  "endswith s p = startswith (rev s) (rev p)"

text \<open>
  \<open>s.split(sep)\<close> for a separator of one character: the fields between the occurrences
  of the separator, at least one field, possibly empty ones.
\<close>

fun split :: "pystr \<Rightarrow> codepoint \<Rightarrow> pystr list" where
  "split [] sep = [[]]"
| "split (c # cs) sep =
     (if c = sep then [] # split cs sep
      else (case split cs sep of [] \<Rightarrow> [[c]] | f # fs \<Rightarrow> (c # f) # fs))"

text \<open>
  \<open>str(n)\<close> for an integer: decimal digits, with a minus sign below zero. The digit \<open>d\<close>
  has the code point \<open>48 + d\<close>.
\<close>

fun str_nat :: "nat \<Rightarrow> pystr" where
  "str_nat n = (if n < 10 then [48 + n] else str_nat (n div 10) @ [48 + n mod 10])"

definition str_int :: "int \<Rightarrow> pystr" where
  "str_int i = (if i < 0 then py ''-'' @ str_nat (nat (- i)) else str_nat (nat i))"

text \<open>\<open>d.get(k, default)\<close>.\<close>

definition dict_get :: "('k \<rightharpoonup> 'v) \<Rightarrow> 'k \<Rightarrow> 'v \<Rightarrow> 'v" where
  "dict_get d k dflt = (case d k of None \<Rightarrow> dflt | Some v \<Rightarrow> v)"

section \<open>Regular expressions and \<open>re.fullmatch\<close>\<close>

text \<open>
  The three patterns of the validator use character classes, literals, concatenation and
  the repetitions \<open>+\<close>, \<open>{n}\<close>, \<open>{m,n}\<close> and \<open>{n,}\<close>. \<open>re.fullmatch\<close> succeeds iff the
  whole string is a word of the pattern; the anchors \<open>^\<close> and \<open>$\<close> add nothing to it.
  Matching is by derivatives.
\<close>

datatype rexp =
    Zero
  | One
  | Cls "codepoint \<Rightarrow> bool"
  | Alt rexp rexp
  | Seq rexp rexp
  | Star rexp

fun nullable :: "rexp \<Rightarrow> bool" where
  "nullable Zero = False"
| "nullable One = True"
| "nullable (Cls p) = False"
| "nullable (Alt r s) = (nullable r \<or> nullable s)"
| "nullable (Seq r s) = (nullable r \<and> nullable s)"
| "nullable (Star r) = True"

fun deriv :: "codepoint \<Rightarrow> rexp \<Rightarrow> rexp" where
  "deriv c Zero = Zero"
| "deriv c One = Zero"
| "deriv c (Cls p) = (if p c then One else Zero)"
| "deriv c (Alt r s) = Alt (deriv c r) (deriv c s)"
| "deriv c (Seq r s) =
     (if nullable r then Alt (Seq (deriv c r) s) (deriv c s) else Seq (deriv c r) s)"
| "deriv c (Star r) = Seq (deriv c r) (Star r)"

fun fullmatch :: "rexp \<Rightarrow> pystr \<Rightarrow> bool" where
  "fullmatch r [] = nullable r"
| "fullmatch r (c # cs) = fullmatch (deriv c r) cs"

definition Lit :: "char \<Rightarrow> rexp" where
  "Lit c = Cls (\<lambda>x. x = of_char c)"

definition Plus :: "rexp \<Rightarrow> rexp" where
  "Plus r = Seq r (Star r)"

fun Rep :: "nat \<Rightarrow> rexp \<Rightarrow> rexp" where
  "Rep 0 r = One"
| "Rep (Suc n) r = Seq r (Rep n r)"

fun UpTo :: "nat \<Rightarrow> rexp \<Rightarrow> rexp" where
  "UpTo 0 r = One"
| "UpTo (Suc n) r = Alt One (Seq r (UpTo n r))"

definition RepRange :: "nat \<Rightarrow> nat \<Rightarrow> rexp \<Rightarrow> rexp" where
  "RepRange m n r = Seq (Rep m r) (UpTo (n - m) r)"

definition RepMin :: "nat \<Rightarrow> rexp \<Rightarrow> rexp" where
  "RepMin m r = Seq (Rep m r) (Star r)"

text \<open>
  The class \<^verbatim>\<open>\d\<close> of a pattern given as \<open>str\<close>, without the flag \<open>re.ASCII\<close>: every
  code point of the Unicode category \<open>Nd\<close> (decimal digit), in any script. The ranges are
  those of Unicode 14.0.0, the database of Python 3.11: the digits \<open>0\<close> to \<open>9\<close>, sixty
  further runs of ten digits (Arabic-Indic from \<open>0x660\<close>, Devanagari from \<open>0x966\<close>,
  fullwidth from \<open>0xFF10\<close>, and so on) and the fifty mathematical digits from \<open>0x1D7CE\<close>:
  660 code points.
\<close>

definition decimal_digit_ranges :: "(codepoint \<times> codepoint) list" where
  "decimal_digit_ranges =
     [(0x30, 0x39), (0x660, 0x669), (0x6F0, 0x6F9), (0x7C0, 0x7C9),
      (0x966, 0x96F), (0x9E6, 0x9EF), (0xA66, 0xA6F), (0xAE6, 0xAEF),
      (0xB66, 0xB6F), (0xBE6, 0xBEF), (0xC66, 0xC6F), (0xCE6, 0xCEF),
      (0xD66, 0xD6F), (0xDE6, 0xDEF), (0xE50, 0xE59), (0xED0, 0xED9),
      (0xF20, 0xF29), (0x1040, 0x1049), (0x1090, 0x1099), (0x17E0, 0x17E9),
      (0x1810, 0x1819), (0x1946, 0x194F), (0x19D0, 0x19D9), (0x1A80, 0x1A89),
      (0x1A90, 0x1A99), (0x1B50, 0x1B59), (0x1BB0, 0x1BB9), (0x1C40, 0x1C49),
      (0x1C50, 0x1C59), (0xA620, 0xA629), (0xA8D0, 0xA8D9), (0xA900, 0xA909),
      (0xA9D0, 0xA9D9), (0xA9F0, 0xA9F9), (0xAA50, 0xAA59), (0xABF0, 0xABF9),
      (0xFF10, 0xFF19), (0x104A0, 0x104A9), (0x10D30, 0x10D39), (0x11066, 0x1106F),
      (0x110F0, 0x110F9), (0x11136, 0x1113F), (0x111D0, 0x111D9), (0x112F0, 0x112F9),
      (0x11450, 0x11459), (0x114D0, 0x114D9), (0x11650, 0x11659), (0x116C0, 0x116C9),
      (0x11730, 0x11739), (0x118E0, 0x118E9), (0x11950, 0x11959), (0x11C50, 0x11C59),
      (0x11D50, 0x11D59), (0x11DA0, 0x11DA9), (0x16A60, 0x16A69), (0x16AC0, 0x16AC9),
      (0x16B50, 0x16B59), (0x1D7CE, 0x1D7FF), (0x1E140, 0x1E149), (0x1E2F0, 0x1E2F9),
      (0x1E950, 0x1E959), (0x1FBF0, 0x1FBF9)]"

definition is_digit :: "codepoint \<Rightarrow> bool" where
  "is_digit c = list_ex (\<lambda>(lo, hi). lo \<le> c \<and> c \<le> hi) decimal_digit_ranges"

definition is_digit_or_upper :: "codepoint \<Rightarrow> bool" where
  "is_digit_or_upper c = (c \<in> set (py (digits @ upper_letters)))"

definition is_email_local :: "codepoint \<Rightarrow> bool" where
  "is_email_local c = (c \<in> set (py (lower_letters @ upper_letters @ digits @ ''._%+-'')))"

definition is_email_domain :: "codepoint \<Rightarrow> bool" where
  "is_email_domain c = (c \<in> set (py (lower_letters @ upper_letters @ digits @ ''.-'')))"

definition is_letter :: "codepoint \<Rightarrow> bool" where
  "is_letter c = (c \<in> set (py (lower_letters @ upper_letters)))"

text \<open>\<^verbatim>\<open>^\d{10}$\<close>\<close>

definition phone_re :: rexp where
  "phone_re = Rep 10 (Cls is_digit)"

text \<open>\<^verbatim>\<open>^[0-9A-Z]{10,12}$\<close>\<close>

definition public_id_re :: rexp where
  "public_id_re = RepRange 10 12 (Cls is_digit_or_upper)"

text \<open>\<^verbatim>\<open>^[a-zA-Z0-9._%+-]+@[a-zA-Z0-9.-]+\.[a-zA-Z]{2,}$\<close>\<close>

definition email_re :: rexp where
  "email_re =
     Seq (Plus (Cls is_email_local))
       (Seq (Lit CHR ''@'')
         (Seq (Plus (Cls is_email_domain))
           (Seq (Lit CHR ''.'') (RepMin 2 (Cls is_letter)))))"

section \<open>Validation of a citizen's submission\<close>

type_synonym json_dict = "pystr \<rightharpoonup> pystr"

text \<open>
  The error dictionary keeps the order in which the keys were stored: an association
  list with one entry for each failed field.
\<close>

definition validate_citizen_input :: "json_dict \<Rightarrow> (pystr \<times> pystr) list" where
  "validate_citizen_input data =
     (let phone = dict_get data (py ''phone'') (py '''');
          public_id = dict_get data (py ''public_id'') (py '''');
          email = dict_get data (py ''email'') (py '''')
      in (if \<not> fullmatch phone_re phone
          then [(py ''phone'', py ''Phone number must be exactly 10 digits.'')] else [])
       @ (if \<not> fullmatch public_id_re public_id
          then [(py ''public_id'',
                 py ''Public ID must be 10 to 12 alphanumeric characters.'')]
          else [])
       @ (if \<not> fullmatch email_re email
          then [(py ''email'', py ''Invalid email format.'')] else []))"

text \<open>
  The three rules in words. The phone rule as the specification states it, read the
  usual way for a phone number: exactly ten of the digits \<open>0\<close> to \<open>9\<close>.
\<close>

definition phone_shape_ascii :: "pystr \<Rightarrow> bool" where
  "phone_shape_ascii s \<longleftrightarrow> length s = 10 \<and> list_all (\<lambda>c. c \<in> set (py ''0123456789'')) s"

text \<open>The phone rule of the code: exactly ten decimal digits of any script.\<close>

definition phone_shape :: "pystr \<Rightarrow> bool" where
  "phone_shape s \<longleftrightarrow> length s = 10 \<and> list_all is_digit s"

text \<open>
  Ten to twelve characters, each a digit \<open>0\<close> to \<open>9\<close> or an upper-case letter \<open>A\<close> to
  \<open>Z\<close>; and the shape \<open>local@domain.tld\<close> with a non-empty local part, a non-empty
  domain and a final label of at least two letters.
\<close>

definition public_id_shape :: "pystr \<Rightarrow> bool" where
  "public_id_shape s \<longleftrightarrow>
     10 \<le> length s \<and> length s \<le> 12 \<and>
     list_all (\<lambda>c. c \<in> set (py ''0123456789ABCDEFGHIJKLMNOPQRSTUVWXYZ'')) s"

definition email_shape :: "pystr \<Rightarrow> bool" where
  "email_shape s \<longleftrightarrow>
     (\<exists>l d t. s = l @ py ''@'' @ d @ py ''.'' @ t \<and>
        l \<noteq> [] \<and> list_all is_email_local l \<and>
        d \<noteq> [] \<and> list_all is_email_domain d \<and>
        2 \<le> length t \<and> list_all is_letter t)"




section \<open>Classification and scoring\<close>

definition generate_unique_id :: "int \<Rightarrow> pystr" where
  \<comment> \<open>\<open>now_ms\<close> is \<open>int(time.time() * 1000)\<close>\<close>
  "generate_unique_id now_ms = py ''GRV-'' @ str_int (now_ms mod 1000000)"

text \<open>
  \<open>random.randint(0, 2)\<close> is the argument \<open>jitter\<close>. The result is the pair
  \<open>(refined_category, priority_score)\<close>.
\<close>

definition ai_categorize_and_score ::
  "(pystr \<Rightarrow> pystr) \<Rightarrow> int \<Rightarrow> pystr \<Rightarrow> pystr \<Rightarrow> pystr \<times> int" where
  "ai_categorize_and_score unicode_lower jitter description citizen_category =
     (let keywords = lower unicode_lower description;
          refined_category =
            (if contains keywords (py ''pothole'') \<or> contains keywords (py ''cracked road'')
             then py ''Pothole_Major''
             else if contains keywords (py ''leakage'') \<or> contains keywords (py ''no water'')
             then py ''Water_Leakage_Critical''
             else citizen_category);
          critical_keywords_found =
            length (filter (\<lambda>word. contains keywords word)
              [py ''dangerous'', py ''urgent'', py ''fatal'', py ''flooding'']);
          priority_score = 3 + jitter + int critical_keywords_found * 2;
          priority_score =
            (if contains (lower unicode_lower refined_category) (py ''critical'')
                \<or> contains (lower unicode_lower citizen_category) (py ''safety'')
             then priority_score + 2 else priority_score);
          priority_score = min 10 priority_score
      in (refined_category, priority_score))"

text \<open>\<open>p in s\<close> in the words of the specification: \<open>p\<close> occurs in \<open>s\<close>.\<close>

definition occurs_in :: "pystr \<Rightarrow> pystr \<Rightarrow> bool" where
  "occurs_in p s \<longleftrightarrow> (\<exists>u v. s = u @ p @ v)"

section \<open>Routing and the workload store\<close>

text \<open>
  \<open>OFFICER_WORKLOADS\<close> is the only mutable state. A dictionary keeps its keys in the
  order of insertion and \<open>min\<close> walks them in that order, so the store is an association
  list with distinct keys; every operation takes the store and returns it.
\<close>

type_synonym workloads = "(pystr \<times> int) list"

definition OFFICER_WORKLOADS :: workloads where
  "OFFICER_WORKLOADS =
     [(py ''Officer_A_Water'', 12),
      (py ''Officer_B_Water'', 5),
      (py ''Officer_C_Roads'', 9),
      (py ''Officer_D_Roads'', 15)]"

definition DEPARTMENT_MAPPING :: "pystr \<rightharpoonup> pystr" where
  "DEPARTMENT_MAPPING = map_of
     [(py ''Road Maintenance'', py ''Public_Works_Dept''),
      (py ''Water Supply'', py ''Water_Supply_Dept''),
      (py ''Sanitation'', py ''Sanitation_Dept''),
      (py ''Public Safety'', py ''Law_Enforcement_Dept''),
      (py ''Illegal Construction'', py ''Town_Planning_Dept''),
      (py ''Public Transport'', py ''Transport_Dept''),
      (py ''Health Services'', py ''Health_Dept''),
      (py ''Education Facilities'', py ''Education_Dept''),
      (py ''Noise Pollution'', py ''Environment_Dept''),
      (py ''Electricity'', py ''Power_Dept''),
      (py ''Drainage'', py ''Water_Supply_Dept''),
      (py ''Parks'', py ''Urban_Development_Dept''),
      (py ''Document Delays'', py ''General_Admin_Dept''),
      (py ''Official Misconduct'', py ''Vigilance_Dept''),
      (py ''Animal Control'', py ''Animal_Control_Dept''),
      (py ''Tree Felling'', py ''Environment_Dept''),
      (py ''Traffic Signals'', py ''Traffic_Police_Dept''),
      (py ''Taxes'', py ''Revenue_Dept''),
      (py ''Social Welfare'', py ''Social_Welfare_Dept''),
      (py ''Cyber'', py ''IT_Dept''),
      (py ''Other'', py ''General_Admin_Dept'')]"

text \<open>\<open>DEPARTMENT_MAPPING.get(refined_category.split('_')[0], 'General_Admin_Dept')\<close>\<close>

definition target_department :: "pystr \<Rightarrow> pystr" where
  "target_department refined_category =
     (let base_category = hd (split refined_category (of_char CHR ''_''))
      in dict_get DEPARTMENT_MAPPING base_category (py ''General_Admin_Dept''))"

text \<open>The dictionary comprehension: the officers whose key ends with the department's first token.\<close>

definition department_officers :: "workloads \<Rightarrow> pystr \<Rightarrow> workloads" where
  "department_officers w td =
     (let dept_prefix = hd (split td (of_char CHR ''_''))
      in filter (\<lambda>(k, v). endswith k (hd (split dept_prefix (of_char CHR ''_'')))) w)"

text \<open>
  \<open>min(d, key=d.get)\<close> on a non-empty dictionary: the keys are visited in order and the
  candidate changes only for a strictly smaller count.
\<close>

fun min_by_count :: "pystr \<times> int \<Rightarrow> workloads \<Rightarrow> pystr \<times> int" where
  "min_by_count best [] = best"
| "min_by_count best (x # xs) = min_by_count (if snd x < snd best then x else best) xs"

text \<open>\<open>OFFICER_WORKLOADS[k] += 1\<close> for a key of the store.\<close>

definition increment :: "workloads \<Rightarrow> pystr \<Rightarrow> workloads" where
  "increment w k = map (\<lambda>(k', v). if k' = k then (k', v + 1) else (k', v)) w"

definition smart_route_and_assign ::
  "workloads \<Rightarrow> pystr \<Rightarrow> int \<Rightarrow> pystr \<Rightarrow> (pystr \<times> pystr) \<times> workloads" where
  "smart_route_and_assign w refined_category priority_score location_coords =
     (let td = target_department refined_category
      in case department_officers w td of
           [] \<Rightarrow> ((td, td @ py ''_Manager''), w)
         | first # others \<Rightarrow>
             if priority_score \<ge> 8 then ((td, td @ py ''_Manager''), w)
             else
               let assigned_officer = fst (min_by_count first others)
               in ((td, assigned_officer), increment w assigned_officer))"

section \<open>The two endpoints\<close>

text \<open>
  The response of \<open>submit_complaint\<close>: the rejection (status 400) with its message and
  the error dictionary, or the record (status 200) with \<open>tracking_id\<close>, \<open>status\<close>,
  \<open>assigned_to\<close> and \<open>priority\<close>. With string fields no step of the handler raises, so
  its \<open>except\<close> branch has no counterpart here.
\<close>

datatype submit_response =
    SubmitFailure pystr "(pystr \<times> pystr) list"
  | SubmitSuccess pystr pystr pystr int

fun submit_success :: "submit_response \<Rightarrow> bool" where
  "submit_success (SubmitFailure m e) = False"
| "submit_success (SubmitSuccess t s a p) = True"

fun submit_http_status :: "submit_response \<Rightarrow> nat" where
  "submit_http_status (SubmitFailure m e) = 400"
| "submit_http_status (SubmitSuccess t s a p) = 200"

definition submit_complaint ::
  "(pystr \<Rightarrow> pystr) \<Rightarrow> int \<Rightarrow> int \<Rightarrow> workloads \<Rightarrow> json_dict
     \<Rightarrow> submit_response \<times> workloads" where
  "submit_complaint unicode_lower now_ms jitter w complaint_data =
     (let validation_errors = validate_citizen_input complaint_data
      in if validation_errors \<noteq> []
         then (SubmitFailure (py ''One or more input fields failed server validation.'')
                 validation_errors, w)
         else
           let tracking_id = generate_unique_id now_ms;
               (refined_category, priority_score) =
                 ai_categorize_and_score unicode_lower jitter
                   (dict_get complaint_data (py ''description'') (py ''''))
                   (dict_get complaint_data (py ''category'') (py ''Other''));
               ((td, assigned_officer), w') =
                 smart_route_and_assign w refined_category priority_score
                   (dict_get complaint_data (py ''location_coords'') (py ''N/A''))
           in (SubmitSuccess tracking_id (py ''Under Review'') assigned_officer
                 priority_score, w'))"

record official_record =
  password_hash :: pystr
  govt_id :: pystr
  department :: pystr
  name :: pystr

definition OFFICIALS_DB :: "pystr \<rightharpoonup> official_record" where
  "OFFICIALS_DB = map_of
     [(py ''john.doe@gov.in'',
        \<lparr>password_hash = py ''hashed_password_doe'', govt_id = py ''GOV1001A'',
         department = py ''Water_Supply_Dept'', name = py ''John Doe''\<rparr>),
      (py ''sara.smith@gov.in'',
        \<lparr>password_hash = py ''hashed_password_smith'', govt_id = py ''GOV2002B'',
         department = py ''Public_Works_Dept'', name = py ''Sara Smith''\<rparr>)]"

text \<open>
  The response of \<open>official_login\<close>: a failure with its HTTP status and message, or the
  success (status 200) with \<open>message\<close>, \<open>token\<close>, \<open>department\<close> and \<open>official_name\<close>.
\<close>

datatype login_response =
    LoginFailure nat pystr
  | LoginSuccess pystr pystr pystr pystr

definition MissingFields :: login_response where
  "MissingFields =
     LoginFailure 400 (py ''Missing required fields (Username, Password, Govt ID).'')"

definition InvalidCredentials :: login_response where
  "InvalidCredentials = LoginFailure 401 (py ''Authentication failed: Invalid credentials.'')"

definition GovtIdMismatch :: login_response where
  "GovtIdMismatch =
     LoginFailure 401 (py ''Authentication failed: Unique Government ID mismatch.'')"

text \<open>\<open>not x\<close> for a field read with \<open>data.get\<close>: absent or the empty string.\<close>

fun falsy :: "pystr option \<Rightarrow> bool" where
  "falsy None = True"
| "falsy (Some s) = (s = [])"

text \<open>
  \<open>py_hash\<close> is Python's \<open>hash\<close> on strings, which changes from one process to the next.
\<close>

definition official_login :: "(pystr \<Rightarrow> int) \<Rightarrow> json_dict \<Rightarrow> login_response" where
  "official_login py_hash data =
     (let username = data (py ''username'');
          password = data (py ''password'');
          govt_id_given = data (py ''govt_id'')
      in if falsy username \<or> falsy password \<or> falsy govt_id_given then MissingFields
         else
           case (username, govt_id_given) of
             (Some u, Some g) \<Rightarrow>
               (case OFFICIALS_DB u of
                  None \<Rightarrow> InvalidCredentials
                | Some official_record \<Rightarrow>
                    if password_hash official_record \<noteq>
                         py ''hashed_password_''
                           @ last (split (hd (split u (of_char CHR ''@''))) (of_char CHR ''.''))
                    then InvalidCredentials
                    else if govt_id official_record \<noteq> g then GovtIdMismatch
                    else
                      let session_token =
                            py ''JWT.'' @ department official_record @ py ''.''
                              @ str_int (py_hash u)
                      in LoginSuccess (py ''Login successful.'') session_token
                           (department official_record) (name official_record))
           | _ \<Rightarrow> MissingFields)"

text \<open>The submission of the end-to-end scenario of the specification.\<close>

definition scenario :: json_dict where
  "scenario =
     [py ''description'' \<mapsto> py ''Major pothole causing dangerous flooding'',
      py ''category'' \<mapsto> py ''Road Maintenance'',
      py ''phone'' \<mapsto> py ''9876543210'',
      py ''public_id'' \<mapsto> py ''AB12345678'',
      py ''email'' \<mapsto> py ''a@b.com'']"

section \<open>Literals\<close>

lemma py_eq_iff [simp]: "py a = py b \<longleftrightarrow> a = b"
proof -
  have "inj (of_char :: char \<Rightarrow> nat)"
    by (rule injI) simp
  then show ?thesis
    by (simp add: py_def inj_map_eq_map)
qed

lemma py_Nil [simp]: "py [] = []"
  by (simp add: py_def)

lemma py_eq_Nil [simp]: "py a = [] \<longleftrightarrow> a = []"
  by (simp add: py_def)

lemma py_append: "py (a @ b) = py a @ py b"
  by (simp add: py_def)

section \<open>Matching by derivatives is matching of words\<close>

lemma fullmatch_Zero [simp]: "fullmatch Zero w = False"
  by (induction w) auto

lemma fullmatch_One [simp]: "fullmatch One w \<longleftrightarrow> w = []"
  by (cases w) auto

lemma fullmatch_Cls [simp]: "fullmatch (Cls p) w \<longleftrightarrow> (\<exists>c. w = [c] \<and> p c)"
  by (cases w) auto

lemma fullmatch_Alt [simp]: "fullmatch (Alt r s) w \<longleftrightarrow> fullmatch r w \<or> fullmatch s w"
  by (induction w arbitrary: r s) auto

lemma fullmatch_Seq:
  "fullmatch (Seq r s) w \<longleftrightarrow> (\<exists>u v. w = u @ v \<and> fullmatch r u \<and> fullmatch s v)"
proof (induction w arbitrary: r s)
  case Nil
  show ?case by simp
next
  case (Cons c w)
  let ?tail = "\<exists>u v. w = u @ v \<and> fullmatch (deriv c r) u \<and> fullmatch s v"
  let ?whole = "\<exists>u v. c # w = u @ v \<and> fullmatch r u \<and> fullmatch s v"
  have split_front: "?whole \<longleftrightarrow> (nullable r \<and> fullmatch s (c # w)) \<or> ?tail"
  proof
    assume ?whole
    then obtain u v where uv: "c # w = u @ v" "fullmatch r u" "fullmatch s v"
      by blast
    show "(nullable r \<and> fullmatch s (c # w)) \<or> ?tail"
    proof (cases u)
      case Nil
      with uv show ?thesis by simp
    next
      case (Cons a u')
      with uv have "w = u' @ v" "fullmatch (deriv c r) u'" by auto
      with uv(3) show ?thesis by blast
    qed
  next
    assume "(nullable r \<and> fullmatch s (c # w)) \<or> ?tail"
    then show ?whole
    proof
      assume "nullable r \<and> fullmatch s (c # w)"
      then have "c # w = [] @ (c # w) \<and> fullmatch r [] \<and> fullmatch s (c # w)" by simp
      then show ?whole by blast
    next
      assume ?tail
      then obtain u v where "w = u @ v" "fullmatch (deriv c r) u" "fullmatch s v"
        by blast
      then have "c # w = (c # u) @ v \<and> fullmatch r (c # u) \<and> fullmatch s v" by simp
      then show ?whole by blast
    qed
  qed
  show ?case
    unfolding split_front by (auto simp: Cons.IH)
qed

lemma fullmatch_Star_Cls: "fullmatch (Star (Cls p)) w \<longleftrightarrow> list_all p w"
  by (induction w) (auto simp: fullmatch_Seq)

lemma fullmatch_Plus_Cls: "fullmatch (Plus (Cls p)) w \<longleftrightarrow> w \<noteq> [] \<and> list_all p w"
  by (cases w) (auto simp: Plus_def fullmatch_Seq fullmatch_Star_Cls)

lemma fullmatch_Rep_Cls: "fullmatch (Rep n (Cls p)) w \<longleftrightarrow> length w = n \<and> list_all p w"
proof (induction n arbitrary: w)
  case 0
  show ?case by auto
next
  case (Suc n)
  show ?case by (cases w) (auto simp: fullmatch_Seq Suc.IH)
qed

lemma fullmatch_UpTo_Cls: "fullmatch (UpTo n (Cls p)) w \<longleftrightarrow> length w \<le> n \<and> list_all p w"
proof (induction n arbitrary: w)
  case 0
  show ?case by auto
next
  case (Suc n)
  show ?case by (cases w) (auto simp: fullmatch_Seq Suc.IH)
qed

lemma fullmatch_RepMin_Cls:
  "fullmatch (RepMin m (Cls p)) w \<longleftrightarrow> m \<le> length w \<and> list_all p w"
proof
  assume "fullmatch (RepMin m (Cls p)) w"
  then show "m \<le> length w \<and> list_all p w"
    by (auto simp: RepMin_def fullmatch_Seq fullmatch_Rep_Cls fullmatch_Star_Cls)
next
  assume h: "m \<le> length w \<and> list_all p w"
  then have "w = take m w @ drop m w" "length (take m w) = m"
    "list_all p (take m w)" "list_all p (drop m w)"
    by (auto simp: list_all_iff dest: in_set_takeD in_set_dropD)
  then show "fullmatch (RepMin m (Cls p)) w"
    unfolding RepMin_def fullmatch_Seq fullmatch_Rep_Cls fullmatch_Star_Cls by blast
qed

lemma fullmatch_RepRange_Cls:
  "m \<le> n \<Longrightarrow> fullmatch (RepRange m n (Cls p)) w \<longleftrightarrow>
     m \<le> length w \<and> length w \<le> n \<and> list_all p w"
proof
  assume "m \<le> n" "fullmatch (RepRange m n (Cls p)) w"
  then show "m \<le> length w \<and> length w \<le> n \<and> list_all p w"
    by (auto simp: RepRange_def fullmatch_Seq fullmatch_Rep_Cls fullmatch_UpTo_Cls)
next
  assume mn: "m \<le> n" and h: "m \<le> length w \<and> length w \<le> n \<and> list_all p w"
  then have "w = take m w @ drop m w" "length (take m w) = m"
    "list_all p (take m w)" "list_all p (drop m w)" "length (drop m w) \<le> n - m"
    by (auto simp: list_all_iff dest: in_set_takeD in_set_dropD)
  then show "fullmatch (RepRange m n (Cls p)) w"
    unfolding RepRange_def fullmatch_Seq fullmatch_Rep_Cls fullmatch_UpTo_Cls by blast
qed

section \<open>The validator\<close>

lemma phone_re_iff: "fullmatch phone_re s \<longleftrightarrow> phone_shape s"
  by (simp add: phone_re_def phone_shape_def fullmatch_Rep_Cls)

lemma public_id_re_iff: "fullmatch public_id_re s \<longleftrightarrow> public_id_shape s"
  by (simp add: public_id_re_def public_id_shape_def fullmatch_RepRange_Cls
      is_digit_or_upper_def [abs_def] digits_def upper_letters_def)

lemma email_re_iff: "fullmatch email_re s \<longleftrightarrow> email_shape s"
proof -
  have tld: "fullmatch (Seq (Lit CHR ''.'') (RepMin 2 (Cls is_letter))) w \<longleftrightarrow>
      (\<exists>t. w = py ''.'' @ t \<and> 2 \<le> length t \<and> list_all is_letter t)" for w
    by (auto simp: Lit_def py_def fullmatch_Seq fullmatch_RepMin_Cls)
  have dom: "fullmatch (Seq (Plus (Cls is_email_domain))
        (Seq (Lit CHR ''.'') (RepMin 2 (Cls is_letter)))) w \<longleftrightarrow>
      (\<exists>d t. w = d @ py ''.'' @ t \<and> d \<noteq> [] \<and> list_all is_email_domain d \<and>
         2 \<le> length t \<and> list_all is_letter t)" for w
    unfolding fullmatch_Seq [of "Plus (Cls is_email_domain)"] tld fullmatch_Plus_Cls
    by blast
  have at: "fullmatch (Seq (Lit CHR ''@'') (Seq (Plus (Cls is_email_domain))
        (Seq (Lit CHR ''.'') (RepMin 2 (Cls is_letter))))) w \<longleftrightarrow>
      (\<exists>d t. w = py ''@'' @ d @ py ''.'' @ t \<and> d \<noteq> [] \<and> list_all is_email_domain d \<and>
         2 \<le> length t \<and> list_all is_letter t)" for w
    unfolding fullmatch_Seq [of "Lit CHR ''@''"] dom
    by (auto simp: Lit_def py_def)
  show ?thesis
    unfolding email_re_def email_shape_def fullmatch_Seq [of "Plus (Cls is_email_local)"]
      at fullmatch_Plus_Cls
    by blast
qed

lemma not_shape_empty:
  "\<not> phone_shape []" "\<not> public_id_shape []" "\<not> email_shape []"
  by (simp_all add: phone_shape_def public_id_shape_def email_shape_def)


text \<open>Below the first digit of another script, \<^verbatim>\<open>\d\<close> is \<open>0\<close> to \<open>9\<close>.\<close>

lemma is_digit_below_other_scripts:
  assumes "c < 0x660"
  shows "is_digit c \<longleftrightarrow> c \<in> set (py ''0123456789'')"
proof -
  have "is_digit c \<longleftrightarrow> 48 \<le> c \<and> c \<le> 57"
    using assms by (simp add: is_digit_def decimal_digit_ranges_def)
  also have "\<dots> \<longleftrightarrow> c = 48 \<or> c = 49 \<or> c = 50 \<or> c = 51 \<or> c = 52
      \<or> c = 53 \<or> c = 54 \<or> c = 55 \<or> c = 56 \<or> c = 57"
    by arith
  also have "\<dots> \<longleftrightarrow> c \<in> set (py ''0123456789'')"
    by (simp add: py_def)
  finally show ?thesis .
qed

lemma phone_shape_below_other_scripts:
  assumes "list_all (\<lambda>c. c < 0x660) s"
  shows "phone_shape s \<longleftrightarrow> phone_shape_ascii s"
proof -
  have "list_all is_digit s \<longleftrightarrow> list_all (\<lambda>c. c \<in> set (py ''0123456789'')) s"
    using assms by (induction s) (simp_all add: is_digit_below_other_scripts)
  then show ?thesis
    by (simp add: phone_shape_def phone_shape_ascii_def)
qed




section \<open>Substrings, splitting and lower case\<close>

lemma startswith_iff: "startswith s p \<longleftrightarrow> (\<exists>v. s = p @ v)"
  by (induction s p rule: startswith.induct) auto

lemma contains_iff: "contains s p \<longleftrightarrow> occurs_in p s"
proof (induction s)
  case Nil
  show ?case by (auto simp: occurs_in_def)
next
  case (Cons c cs)
  have "occurs_in p (c # cs) \<longleftrightarrow> (\<exists>v. c # cs = p @ v) \<or> occurs_in p cs"
    unfolding occurs_in_def
  proof
    assume "\<exists>u v. c # cs = u @ p @ v"
    then obtain u v where uv: "c # cs = u @ p @ v" by blast
    show "(\<exists>v. c # cs = p @ v) \<or> (\<exists>u v. cs = u @ p @ v)"
    proof (cases u)
      case Nil
      with uv show ?thesis by auto
    next
      case (Cons a u')
      with uv have "cs = u' @ p @ v" by simp
      then show ?thesis by blast
    qed
  next
    assume "(\<exists>v. c # cs = p @ v) \<or> (\<exists>u v. cs = u @ p @ v)"
    then show "\<exists>u v. c # cs = u @ p @ v"
    proof
      assume "\<exists>v. c # cs = p @ v"
      then obtain v where "c # cs = [] @ p @ v" by auto
      then show ?thesis by blast
    next
      assume "\<exists>u v. cs = u @ p @ v"
      then obtain u v where "c # cs = (c # u) @ p @ v" by auto
      then show ?thesis by blast
    qed
  qed
  then show ?case
    using Cons.IH by (simp add: startswith_iff)
qed

lemma split_not_Nil: "split s sep \<noteq> []"
  by (induction s) (auto split: list.splits)

text \<open>On a string of code points below 256 the mappings of the Unicode database are not consulted.\<close>

lemma lower_below_256:
  "list_all (\<lambda>n. n < 256) s \<Longrightarrow> lower unicode_lower s = map lower_char s"
  by (simp add: lower_def)

section \<open>The classifier\<close>

lemma category_shape:
  "fst (ai_categorize_and_score unicode_lower jitter description citizen_category) =
     (if contains (lower unicode_lower description) (py ''pothole'')
         \<or> contains (lower unicode_lower description) (py ''cracked road'')
      then py ''Pothole_Major''
      else if contains (lower unicode_lower description) (py ''leakage'')
         \<or> contains (lower unicode_lower description) (py ''no water'')
      then py ''Water_Leakage_Critical''
      else citizen_category)"
  unfolding ai_categorize_and_score_def Let_def fst_conv by (rule refl)

lemma score_shape:
  "\<exists>n b. snd (ai_categorize_and_score unicode_lower jitter description citizen_category)
     = min 10 (if b then 3 + jitter + int n * 2 + 2 else 3 + jitter + int n * 2)"
  unfolding ai_categorize_and_score_def Let_def snd_conv by (rule exI, rule exI, rule refl)

text \<open>
  C6. If the lower-cased description contains \<open>pothole\<close> or \<open>cracked road\<close>, the refined
  category is \<open>Pothole_Major\<close> whatever the declared category; else, if it contains
  \<open>leakage\<close> or \<open>no water\<close>, it is \<open>Water_Leakage_Critical\<close>; otherwise it is the declared
  category unchanged.
\<close>

theorem refined_category_rules:
  "(occurs_in (py ''pothole'') (lower unicode_lower description)
      \<or> occurs_in (py ''cracked road'') (lower unicode_lower description)
      \<longrightarrow> fst (ai_categorize_and_score unicode_lower jitter description citizen_category)
            = py ''Pothole_Major'')
   \<and> (\<not> (occurs_in (py ''pothole'') (lower unicode_lower description)
            \<or> occurs_in (py ''cracked road'') (lower unicode_lower description))
        \<and> (occurs_in (py ''leakage'') (lower unicode_lower description)
            \<or> occurs_in (py ''no water'') (lower unicode_lower description))
      \<longrightarrow> fst (ai_categorize_and_score unicode_lower jitter description citizen_category)
            = py ''Water_Leakage_Critical'')
   \<and> (\<not> (occurs_in (py ''pothole'') (lower unicode_lower description)
            \<or> occurs_in (py ''cracked road'') (lower unicode_lower description))
        \<and> \<not> (occurs_in (py ''leakage'') (lower unicode_lower description)
            \<or> occurs_in (py ''no water'') (lower unicode_lower description))
      \<longrightarrow> fst (ai_categorize_and_score unicode_lower jitter description citizen_category)
            = citizen_category)"
  unfolding category_shape contains_iff by simp

theorem refined_category_rules_witness:
  "occurs_in (py ''pothole'') (lower id (py ''A POTHOLE and a leakage''))
   \<and> fst (ai_categorize_and_score id 1 (py ''A POTHOLE and a leakage'') (py ''Sanitation''))
       = py ''Pothole_Major''
   \<and> \<not> (occurs_in (py ''pothole'') (lower id (py ''No Water today''))
          \<or> occurs_in (py ''cracked road'') (lower id (py ''No Water today'')))
   \<and> occurs_in (py ''no water'') (lower id (py ''No Water today''))
   \<and> fst (ai_categorize_and_score id 1 (py ''No Water today'') (py ''Sanitation''))
       = py ''Water_Leakage_Critical''
   \<and> \<not> (occurs_in (py ''pothole'') (lower id (py ''Bins''))
          \<or> occurs_in (py ''cracked road'') (lower id (py ''Bins'')))
   \<and> \<not> (occurs_in (py ''leakage'') (lower id (py ''Bins''))
          \<or> occurs_in (py ''no water'') (lower id (py ''Bins'')))
   \<and> fst (ai_categorize_and_score id 1 (py ''Bins'') (py ''Sanitation'')) = py ''Sanitation''"
proof -
  have a: "occurs_in (py ''pothole'') (lower id (py ''A POTHOLE and a leakage''))"
    unfolding contains_iff [symmetric] by code_simp
  have b: "\<not> (occurs_in (py ''pothole'') (lower id (py ''No Water today''))
          \<or> occurs_in (py ''cracked road'') (lower id (py ''No Water today'')))"
    unfolding contains_iff [symmetric] by code_simp
  have c: "occurs_in (py ''no water'') (lower id (py ''No Water today''))"
    unfolding contains_iff [symmetric] by code_simp
  have d: "\<not> (occurs_in (py ''pothole'') (lower id (py ''Bins''))
          \<or> occurs_in (py ''cracked road'') (lower id (py ''Bins'')))"
    unfolding contains_iff [symmetric] by code_simp
  have e: "\<not> (occurs_in (py ''leakage'') (lower id (py ''Bins''))
          \<or> occurs_in (py ''no water'') (lower id (py ''Bins'')))"
    unfolding contains_iff [symmetric] by code_simp
  show ?thesis
    using a b c d e
      refined_category_rules [of id "py ''A POTHOLE and a leakage''" 1 "py ''Sanitation''"]
      refined_category_rules [of id "py ''No Water today''" 1 "py ''Sanitation''"]
      refined_category_rules [of id "py ''Bins''" 1 "py ''Sanitation''"]
    by blast
qed

text \<open>
  C7. For every description, every declared category and every jitter in \<open>{0, 1, 2}\<close> the
  priority score is at least 3 and at most 10.
\<close>

theorem priority_score_bounds:
  assumes "0 \<le> jitter" and "jitter \<le> 2"
  shows "3 \<le> snd (ai_categorize_and_score unicode_lower jitter description citizen_category)
     \<and> snd (ai_categorize_and_score unicode_lower jitter description citizen_category) \<le> 10"
proof -
  obtain n b where
    "snd (ai_categorize_and_score unicode_lower jitter description citizen_category)
     = min 10 (if b then 3 + jitter + int n * 2 + 2 else 3 + jitter + int n * 2)"
    using score_shape by blast
  with assms show ?thesis by (cases b) simp_all
qed

theorem priority_score_bounds_witness:
  "(0::int) \<le> 2 \<and> (2::int) \<le> 2
   \<and> 3 \<le> snd (ai_categorize_and_score id 2 (py ''urgent, fatal and dangerous flooding'')
              (py ''Public Safety''))
   \<and> snd (ai_categorize_and_score id 2 (py ''urgent, fatal and dangerous flooding'')
          (py ''Public Safety'')) \<le> 10"
  using priority_score_bounds
    [of 2 id "py ''urgent, fatal and dangerous flooding''" "py ''Public Safety''"]
  by simp

section \<open>The router\<close>

lemma min_by_count_mem: "min_by_count best xs \<in> set (best # xs)"
  by (induction xs arbitrary: best) auto

lemma min_by_count_le_best: "snd (min_by_count best xs) \<le> snd best"
proof (induction xs arbitrary: best)
  case Nil
  show ?case by simp
next
  case (Cons x xs)
  have "snd (min_by_count (if snd x < snd best then x else best) xs)
          \<le> snd (if snd x < snd best then x else best)"
    by (rule Cons.IH)
  then show ?case by (simp split: if_splits)
qed

lemma min_by_count_le: "x \<in> set (best # xs) \<Longrightarrow> snd (min_by_count best xs) \<le> snd x"
proof (induction xs arbitrary: best)
  case Nil
  then show ?case by simp
next
  case (Cons y ys)
  let ?b = "if snd y < snd best then y else best"
  have step: "snd (min_by_count ?b ys) \<le> snd ?b"
    by (rule min_by_count_le_best)
  from Cons.prems have "x = best \<or> x = y \<or> x \<in> set ys" by auto
  then show ?case
  proof (elim disjE)
    assume "x = best"
    with step show ?thesis by (simp split: if_splits)
  next
    assume "x = y"
    with step show ?thesis by (simp split: if_splits)
  next
    assume "x \<in> set ys"
    then have "snd (min_by_count ?b ys) \<le> snd x"
      by (intro Cons.IH) simp
    then show ?thesis by simp
  qed
qed

lemma increment_keys: "map fst (increment w k) = map fst w"
  by (induction w) (auto simp: increment_def)

lemma map_of_increment:
  "map_of (increment w k) k' =
     (if k' = k then map_option (\<lambda>v. v + 1) (map_of w k) else map_of w k')"
  by (induction w) (auto simp: increment_def)

lemma department_officers_subset:
  "set (department_officers w td) \<subseteq> set w"
  by (auto simp: department_officers_def Let_def)

text \<open>
  C4. For every refined category and every priority score of 8 or more, the assignee is
  the resolved department followed by \<open>_Manager\<close> and the workload store is returned
  unchanged.
\<close>

theorem priority_override:
  "8 \<le> priority_score \<Longrightarrow>
     smart_route_and_assign w refined_category priority_score location_coords =
       ((target_department refined_category,
         target_department refined_category @ py ''_Manager''), w)"
  by (simp add: smart_route_and_assign_def Let_def split: list.split)

theorem priority_override_witness:
  "(8::int) \<le> 9 \<and>
   smart_route_and_assign OFFICER_WORKLOADS (py ''Water Supply'') 9 (py ''N/A'') =
     ((py ''Water_Supply_Dept'', py ''Water_Supply_Dept_Manager''),
      [(py ''Officer_A_Water'', 12), (py ''Officer_B_Water'', 5),
       (py ''Officer_C_Roads'', 9), (py ''Officer_D_Roads'', 15)])"
proof -
  have td: "target_department (py ''Water Supply'') = py ''Water_Supply_Dept''"
    by code_simp
  show ?thesis
    using priority_override [of 9 OFFICER_WORKLOADS "py ''Water Supply''" "py ''N/A''"]
    by (simp add: td OFFICER_WORKLOADS_def py_append [symmetric])
qed

text \<open>
  C5. With a priority score below 8 and at least one matching officer, the assignee is a
  matching officer whose count is the lowest (the one with the strictly lowest count
  when there is one); that officer's counter goes up by 1 and every other counter, and
  the set of officers, stays as it was. With two matching officers at 5 and 12 the
  officer at 5 is chosen and goes to 6, the other stays at 12.
\<close>

theorem load_balancing:
  assumes "distinct (map fst w)"
    and "priority_score < 8"
    and "department_officers w (target_department refined_category) \<noteq> []"
  shows "\<exists>a c w'.
      smart_route_and_assign w refined_category priority_score location_coords =
        ((target_department refined_category, a), w')
      \<and> (a, c) \<in> set (department_officers w (target_department refined_category))
      \<and> (\<forall>(k, v) \<in> set (department_officers w (target_department refined_category)). c \<le> v)
      \<and> (\<forall>(k, v) \<in> set (department_officers w (target_department refined_category)).
            (\<forall>(k', v') \<in> set (department_officers w (target_department refined_category)).
               k' \<noteq> k \<longrightarrow> v < v') \<longrightarrow> a = k)
      \<and> map fst w' = map fst w
      \<and> map_of w' = (map_of w)(a \<mapsto> c + 1)
      \<and> (\<forall>k1 k2. set (department_officers w (target_department refined_category))
              = {(k1, 5), (k2, 12)}
            \<longrightarrow> a = k1 \<and> map_of w' k1 = Some 6 \<and> map_of w' k2 = Some 12)"
proof -
  let ?td = "target_department refined_category"
  let ?offs = "department_officers w ?td"
  from assms(3) obtain first others where offs: "?offs = first # others"
    by (cases ?offs) auto
  define m where "m = min_by_count first others"
  define a where "a = fst m"
  define c where "c = snd m"
  define w' where "w' = increment w a"
  have res: "smart_route_and_assign w refined_category priority_score location_coords =
      ((?td, a), w')"
    using assms(2) by (simp add: smart_route_and_assign_def Let_def offs m_def a_def w'_def)
  have mem: "(a, c) \<in> set ?offs"
    using min_by_count_mem [of first others] by (simp add: offs m_def a_def c_def)
  have least: "c \<le> v" if "(k, v) \<in> set ?offs" for k v
    using min_by_count_le [of "(k, v)" first others] that by (simp add: offs m_def c_def)
  have in_w: "(a, c) \<in> set w"
    using mem department_officers_subset by blast
  have lookup: "map_of w a = Some c"
    using assms(1) in_w by simp
  have unique: "v = v'" if "(k, v) \<in> set ?offs" "(k, v') \<in> set ?offs" for k v v'
  proof -
    from that have "(k, v) \<in> set w" "(k, v') \<in> set w"
      using department_officers_subset by blast+
    with assms(1) show ?thesis
      by (rule eq_key_imp_eq_value)
  qed
  have strict: "a = k"
    if "(k, v) \<in> set ?offs"
      and "\<forall>(k', v') \<in> set ?offs. k' \<noteq> k \<longrightarrow> v < v'" for k v
  proof (rule ccontr)
    assume "a \<noteq> k"
    with that(2) mem have "v < c" by auto
    moreover have "c \<le> v" using that(1) by (rule least)
    ultimately show False by simp
  qed
  have store: "map_of w' = (map_of w)(a \<mapsto> c + 1)"
    by (rule ext) (simp add: w'_def map_of_increment lookup)
  have two: "a = k1 \<and> map_of w' k1 = Some 6 \<and> map_of w' k2 = Some 12"
    if eq: "set ?offs = {(k1, 5), (k2, 12)}" for k1 k2
  proof -
    have k1: "(k1, 5) \<in> set ?offs" and k2: "(k2, 12) \<in> set ?offs"
      using eq by simp_all
    have "k1 \<noteq> k2"
    proof
      assume "k1 = k2"
      with k1 k2 unique [of k1 5 12] have "(5::int) = 12" by simp
      then show False by simp
    qed
    have "c \<le> 5" using k1 by (rule least)
    moreover from mem eq have "(a, c) = (k1, 5) \<or> (a, c) = (k2, 12)" by simp
    ultimately have ac: "a = k1" "c = 5" by auto
    have "(k2, 12) \<in> set w"
      using k2 department_officers_subset by blast
    with assms(1) have "map_of w k2 = Some 12" by simp
    with ac \<open>k1 \<noteq> k2\<close> show ?thesis by (simp add: store)
  qed
  show ?thesis
    using res mem least strict increment_keys [of w a] store two
    unfolding w'_def [symmetric]
    by (intro exI [of _ a] exI [of _ c] exI [of _ w']) blast
qed

theorem load_balancing_witness:
  "distinct (map fst OFFICER_WORKLOADS) \<and> (7::int) < 8
   \<and> department_officers OFFICER_WORKLOADS (target_department (py ''Water Supply''))
       = [(py ''Officer_A_Water'', 12), (py ''Officer_B_Water'', 5)]
   \<and> smart_route_and_assign OFFICER_WORKLOADS (py ''Water Supply'') 7 (py ''N/A'') =
       ((py ''Water_Supply_Dept'', py ''Officer_B_Water''),
        [(py ''Officer_A_Water'', 12), (py ''Officer_B_Water'', 6),
         (py ''Officer_C_Roads'', 9), (py ''Officer_D_Roads'', 15)])"
proof -
  have d: "distinct (map fst OFFICER_WORKLOADS)"
    by code_simp
  have offs: "department_officers OFFICER_WORKLOADS (target_department (py ''Water Supply''))
       = [(py ''Officer_A_Water'', 12), (py ''Officer_B_Water'', 5)]"
    by code_simp
  have run: "smart_route_and_assign OFFICER_WORKLOADS (py ''Water Supply'') 7 (py ''N/A'') =
       ((py ''Water_Supply_Dept'', py ''Officer_B_Water''),
        [(py ''Officer_A_Water'', 12), (py ''Officer_B_Water'', 6),
         (py ''Officer_C_Roads'', 9), (py ''Officer_D_Roads'', 15)])"
    by code_simp
  have "\<exists>a c w'.
      smart_route_and_assign OFFICER_WORKLOADS (py ''Water Supply'') 7 (py ''N/A'') =
        ((target_department (py ''Water Supply''), a), w')
      \<and> (a, c) \<in> set (department_officers OFFICER_WORKLOADS
            (target_department (py ''Water Supply'')))
      \<and> (\<forall>(k, v) \<in> set (department_officers OFFICER_WORKLOADS
            (target_department (py ''Water Supply''))). c \<le> v)"
    using load_balancing [of OFFICER_WORKLOADS 7 "py ''Water Supply''" "py ''N/A''"] d
    unfolding offs by fastforce
  with d offs run show ?thesis by simp
qed

section \<open>The endpoints\<close>

lemma py_append_more: "py a @ py b @ rest = py (a @ b) @ rest"
  by (simp add: py_def)

text \<open>
  C8. When validation yields a non-empty error set, the response is the failure carrying
  those field errors, whatever the clock and the jitter, and the workload store is
  returned unchanged: neither classification nor routing took place.
\<close>

theorem submit_complaint_rejects:
  "validate_citizen_input complaint_data \<noteq> [] \<Longrightarrow>
     submit_complaint unicode_lower now_ms jitter w complaint_data =
       (SubmitFailure (py ''One or more input fields failed server validation.'')
          (validate_citizen_input complaint_data), w)
     \<and> \<not> submit_success (fst (submit_complaint unicode_lower now_ms jitter w complaint_data))
     \<and> submit_http_status (fst (submit_complaint unicode_lower now_ms jitter w complaint_data))
         = 400
     \<and> snd (submit_complaint unicode_lower now_ms jitter w complaint_data) = w"
  by (simp add: submit_complaint_def Let_def)

theorem submit_complaint_rejects_witness:
  "validate_citizen_input
     [py ''phone'' \<mapsto> py ''12345'', py ''category'' \<mapsto> py ''Water Supply''] \<noteq> []
   \<and> submit_complaint id 1700000000000 0 OFFICER_WORKLOADS
        [py ''phone'' \<mapsto> py ''12345'', py ''category'' \<mapsto> py ''Water Supply''] =
       (SubmitFailure (py ''One or more input fields failed server validation.'')
          [(py ''phone'', py ''Phone number must be exactly 10 digits.''),
           (py ''public_id'', py ''Public ID must be 10 to 12 alphanumeric characters.''),
           (py ''email'', py ''Invalid email format.'')],
        OFFICER_WORKLOADS)"
proof -
  have "\<not> fullmatch phone_re (py ''12345'')"
    unfolding phone_re_iff phone_shape_def by (simp add: py_def)
  moreover have "\<not> fullmatch public_id_re []" "\<not> fullmatch email_re []"
    unfolding public_id_re_iff email_re_iff by (rule not_shape_empty)+
  ultimately have v: "validate_citizen_input
      [py ''phone'' \<mapsto> py ''12345'', py ''category'' \<mapsto> py ''Water Supply''] =
      [(py ''phone'', py ''Phone number must be exactly 10 digits.''),
       (py ''public_id'', py ''Public ID must be 10 to 12 alphanumeric characters.''),
       (py ''email'', py ''Invalid email format.'')]"
    by (simp add: validate_citizen_input_def dict_get_def)
  show ?thesis
    using submit_complaint_rejects
      [of "[py ''phone'' \<mapsto> py ''12345'', py ''category'' \<mapsto> py ''Water Supply'']"
        id 1700000000000 0 OFFICER_WORKLOADS]
    by (simp add: v)
qed

declare str_nat.simps [simp del]

lemma str_nat_digit: "n < 10 \<Longrightarrow> str_nat n = [48 + n]"
  by (simp add: str_nat.simps)

lemma str_nat_step: "10 \<le> n \<Longrightarrow> str_nat n = str_nat (n div 10) @ [48 + n mod 10]"
  by (subst str_nat.simps) simp

lemma scenario_fields:
  "dict_get scenario (py ''description'') (py '''')
     = py ''Major pothole causing dangerous flooding''"
  "dict_get scenario (py ''category'') (py ''Other'') = py ''Road Maintenance''"
  "dict_get scenario (py ''location_coords'') (py ''N/A'') = py ''N/A''"
  by (simp_all add: scenario_def dict_get_def)

lemma scenario_valid: "validate_citizen_input scenario = []"
proof -
  have "list_all (\<lambda>c. c < 0x660) (py ''9876543210'')"
    by (simp add: py_def)
  then have "phone_shape (py ''9876543210'') \<longleftrightarrow> phone_shape_ascii (py ''9876543210'')"
    by (rule phone_shape_below_other_scripts)
  moreover have "phone_shape_ascii (py ''9876543210'')"
    by (simp add: phone_shape_ascii_def py_def)
  ultimately have "fullmatch phone_re (py ''9876543210'')"
    by (simp add: phone_re_iff)
  moreover have "fullmatch public_id_re (py ''AB12345678'')"
    by code_simp
  moreover have "fullmatch email_re (py ''a@b.com'')"
    by code_simp
  ultimately show ?thesis
    by (simp add: validate_citizen_input_def scenario_def dict_get_def)
qed

lemma scenario_lower:
  "lower unicode_lower (py ''Major pothole causing dangerous flooding'')
     = py ''major pothole causing dangerous flooding''"
  "lower unicode_lower (py ''Pothole_Major'') = py ''pothole_major''"
  "lower unicode_lower (py ''Road Maintenance'') = py ''road maintenance''"
  by (simp_all add: lower_def lower_char_def py_def)

lemma scenario_keywords:
  "contains (py ''major pothole causing dangerous flooding'') (py ''pothole'')"
  "filter (\<lambda>word. contains (py ''major pothole causing dangerous flooding'') word)
     [py ''dangerous'', py ''urgent'', py ''fatal'', py ''flooding'']
     = [py ''dangerous'', py ''flooding'']"
  "\<not> contains (py ''pothole_major'') (py ''critical'')"
  "\<not> contains (py ''road maintenance'') (py ''safety'')"
  by code_simp+

lemma scenario_classified:
  "ai_categorize_and_score unicode_lower jitter
     (py ''Major pothole causing dangerous flooding'') (py ''Road Maintenance'')
     = (py ''Pothole_Major'', min 10 (7 + jitter))"
  unfolding ai_categorize_and_score_def Let_def
  by (simp only: scenario_lower scenario_keywords if_True if_False simp_thms) simp

lemma pothole_department:
  "hd (split (py ''Pothole_Major'') (of_char CHR ''_'')) = py ''Pothole''"
  "DEPARTMENT_MAPPING (py ''Pothole'') = None"
  "target_department (py ''Pothole_Major'') = py ''General_Admin_Dept''"
  "department_officers OFFICER_WORKLOADS (py ''General_Admin_Dept'') = []"
  by code_simp+

text \<open>
  C9. The scenario of the specification: validation passes; the refined category is
  \<open>Pothole_Major\<close>; the score is 7 plus the jitter, so 7, 8 or 9; the base key \<open>Pothole\<close>
  is not in the mapping and the department is the fallback \<open>General_Admin_Dept\<close>; and
  the response is a success whose tracking id is \<open>GRV-\<close> followed by the clock in
  milliseconds modulo one million.
\<close>

theorem scenario_end_to_end:
  assumes "jitter \<in> {0, 1, 2}"
  shows "validate_citizen_input scenario = []
    \<and> ai_categorize_and_score unicode_lower jitter
         (dict_get scenario (py ''description'') (py ''''))
         (dict_get scenario (py ''category'') (py ''Other''))
       = (py ''Pothole_Major'', 7 + jitter)
    \<and> 7 + jitter \<in> {7, 8, 9}
    \<and> hd (split (py ''Pothole_Major'') (of_char CHR ''_'')) = py ''Pothole''
    \<and> DEPARTMENT_MAPPING (py ''Pothole'') = None
    \<and> target_department (py ''Pothole_Major'') = py ''General_Admin_Dept''
    \<and> (\<exists>assignee w'. submit_complaint unicode_lower now_ms jitter w scenario =
          (SubmitSuccess (py ''GRV-'' @ str_int (now_ms mod 1000000)) (py ''Under Review'')
             assignee (7 + jitter), w'))
    \<and> submit_complaint unicode_lower now_ms jitter OFFICER_WORKLOADS scenario =
          (SubmitSuccess (py ''GRV-'' @ str_int (now_ms mod 1000000)) (py ''Under Review'')
             (py ''General_Admin_Dept_Manager'') (7 + jitter), OFFICER_WORKLOADS)"
proof -
  from assms have score: "min 10 (7 + jitter) = 7 + jitter" and range: "7 + jitter \<in> {7, 8, 9}"
    by auto
  have classified: "ai_categorize_and_score unicode_lower jitter
         (dict_get scenario (py ''description'') (py ''''))
         (dict_get scenario (py ''category'') (py ''Other''))
       = (py ''Pothole_Major'', 7 + jitter)"
    by (simp only: scenario_fields scenario_classified score)
  obtain td a w' where route:
    "smart_route_and_assign w (py ''Pothole_Major'') (7 + jitter) (py ''N/A'') = ((td, a), w')"
    by (metis surj_pair)
  have fields: "dict_get scenario (py ''location_coords'') (py ''N/A'') = py ''N/A''"
    by (rule scenario_fields)
  have any_store: "submit_complaint unicode_lower now_ms jitter w scenario =
      (SubmitSuccess (py ''GRV-'' @ str_int (now_ms mod 1000000)) (py ''Under Review'')
         a (7 + jitter), w')"
    unfolding submit_complaint_def Let_def classified fields
    by (simp add: scenario_valid route generate_unique_id_def)
  have route0: "smart_route_and_assign OFFICER_WORKLOADS (py ''Pothole_Major'') (7 + jitter)
        (py ''N/A'')
      = ((py ''General_Admin_Dept'', py ''General_Admin_Dept_Manager''), OFFICER_WORKLOADS)"
    by (simp add: smart_route_and_assign_def Let_def pothole_department py_append [symmetric])
  have shipped: "submit_complaint unicode_lower now_ms jitter OFFICER_WORKLOADS scenario =
      (SubmitSuccess (py ''GRV-'' @ str_int (now_ms mod 1000000)) (py ''Under Review'')
         (py ''General_Admin_Dept_Manager'') (7 + jitter), OFFICER_WORKLOADS)"
    unfolding submit_complaint_def Let_def classified fields
    by (simp add: scenario_valid route0 generate_unique_id_def)
  from any_store have ex: "\<exists>assignee w'. submit_complaint unicode_lower now_ms jitter w scenario =
          (SubmitSuccess (py ''GRV-'' @ str_int (now_ms mod 1000000)) (py ''Under Review'')
             assignee (7 + jitter), w')"
    by blast
  show ?thesis
    using scenario_valid classified range pothole_department(1,2,3) ex shipped
    by blast
qed

theorem scenario_end_to_end_witness:
  "(1::int) \<in> {0, 1, 2}
   \<and> submit_complaint id 1762214400123 1 OFFICER_WORKLOADS scenario =
       (SubmitSuccess (py ''GRV-400123'') (py ''Under Review'')
          (py ''General_Admin_Dept_Manager'') 8,
        OFFICER_WORKLOADS)"
proof -
  have tid: "py ''GRV-'' @ str_int 400123 = py ''GRV-400123''"
    by (simp add: str_int_def str_nat_digit str_nat_step py_def)
  show ?thesis
    using scenario_end_to_end [of 1 id 1762214400123 OFFICER_WORKLOADS]
    by (simp add: tid)
qed

text \<open>
  C2. Two login requests that differ only in the password, both passwords non-empty,
  get the same response: the password is read and tested for presence, and nothing else.
\<close>

theorem password_never_compared:
  "p1 \<noteq> [] \<Longrightarrow> p2 \<noteq> [] \<Longrightarrow>
     official_login py_hash (data(py ''password'' \<mapsto> p1)) =
     official_login py_hash (data(py ''password'' \<mapsto> p2))"
  by (simp add: official_login_def Let_def)

theorem password_never_compared_witness:
  "py ''hashed_password_doe'' \<noteq> [] \<and> py ''guess'' \<noteq> []
   \<and> official_login (\<lambda>u. 42)
        ([py ''username'' \<mapsto> py ''john.doe@gov.in'', py ''govt_id'' \<mapsto> py ''GOV1001A'']
           (py ''password'' \<mapsto> py ''hashed_password_doe'')) =
     official_login (\<lambda>u. 42)
        ([py ''username'' \<mapsto> py ''john.doe@gov.in'', py ''govt_id'' \<mapsto> py ''GOV1001A'']
           (py ''password'' \<mapsto> py ''guess''))"
  using password_never_compared [of "py ''hashed_password_doe''" "py ''guess''" "\<lambda>u. 42"
      "[py ''username'' \<mapsto> py ''john.doe@gov.in'', py ''govt_id'' \<mapsto> py ''GOV1001A'']"]
  by simp

lemma derived_credentials:
  "last (split (hd (split (py ''john.doe@gov.in'') (of_char CHR ''@''))) (of_char CHR ''.''))
     = py ''doe''"
  "last (split (hd (split (py ''sara.smith@gov.in'') (of_char CHR ''@''))) (of_char CHR ''.''))
     = py ''smith''"
  by code_simp+

lemma derived_credentials_codes:
  "last (split (hd (split (py ''john.doe@gov.in'') 64)) 46) = py ''doe''"
  "last (split (hd (split (py ''sara.smith@gov.in'') 64)) 46) = py ''smith''"
  using derived_credentials by simp_all

lemma official_login_john:
  "p \<noteq> [] \<Longrightarrow>
   official_login py_hash
     [py ''username'' \<mapsto> py ''john.doe@gov.in'', py ''password'' \<mapsto> p,
      py ''govt_id'' \<mapsto> py ''GOV1001A''] =
   LoginSuccess (py ''Login successful.'')
     (py ''JWT.Water_Supply_Dept.'' @ str_int (py_hash (py ''john.doe@gov.in'')))
     (py ''Water_Supply_Dept'') (py ''John Doe'')"
  by (simp add: official_login_def Let_def OFFICIALS_DB_def derived_credentials_codes
      py_append [symmetric] py_append_more)

text \<open>The failures that \<open>official_login\<close> does report.\<close>

lemma official_login_missing:
  "falsy (data (py ''username'')) \<or> falsy (data (py ''password''))
     \<or> falsy (data (py ''govt_id'')) \<Longrightarrow>
     official_login py_hash data = MissingFields"
  by (simp add: official_login_def Let_def)

lemma official_login_unknown_user:
  "u \<noteq> [] \<Longrightarrow> p \<noteq> [] \<Longrightarrow> g \<noteq> [] \<Longrightarrow> OFFICIALS_DB u = None \<Longrightarrow>
     official_login py_hash
       [py ''username'' \<mapsto> u, py ''password'' \<mapsto> p, py ''govt_id'' \<mapsto> g]
       = InvalidCredentials"
  by (simp add: official_login_def Let_def)

lemma official_login_wrong_govt_id:
  assumes "p \<noteq> []" and "g \<noteq> []" and "g \<noteq> py ''GOV1001A''"
  shows "official_login py_hash
     [py ''username'' \<mapsto> py ''john.doe@gov.in'', py ''password'' \<mapsto> p,
      py ''govt_id'' \<mapsto> g]
       = GovtIdMismatch"
  using assms
  by (auto simp: official_login_def Let_def OFFICIALS_DB_def derived_credentials_codes
      py_append [symmetric])

text \<open>
  C1, the part the code does not keep. John Doe's username and government id with a
  password that is not his stored credential: the login succeeds. Sara Smith's username
  with John Doe's credential and government id: the check of the credential passes as
  well, and the failure comes from the government id.
\<close>

theorem official_login_wrong_password:
  "official_login py_hash
     [py ''username'' \<mapsto> py ''john.doe@gov.in'', py ''password'' \<mapsto> py ''wrong'',
      py ''govt_id'' \<mapsto> py ''GOV1001A''] =
   LoginSuccess (py ''Login successful.'')
     (py ''JWT.Water_Supply_Dept.'' @ str_int (py_hash (py ''john.doe@gov.in'')))
     (py ''Water_Supply_Dept'') (py ''John Doe'')
   \<and> official_login py_hash
     [py ''username'' \<mapsto> py ''sara.smith@gov.in'',
      py ''password'' \<mapsto> py ''hashed_password_doe'',
      py ''govt_id'' \<mapsto> py ''GOV1001A''] = GovtIdMismatch"
proof -
  have "official_login py_hash
     [py ''username'' \<mapsto> py ''sara.smith@gov.in'',
      py ''password'' \<mapsto> py ''hashed_password_doe'',
      py ''govt_id'' \<mapsto> py ''GOV1001A''] = GovtIdMismatch"
    by (simp add: official_login_def Let_def OFFICIALS_DB_def derived_credentials_codes
        py_append [symmetric])
  then show ?thesis
    by (simp add: official_login_john)
qed

end
